theory Spec2Isabelle
  imports Complex_Main
begin

section \<open>Python values, dictionaries and exceptions\<close>

text \<open>
  The two modules handle only strings and \<open>None\<close>.  The dictionary returned by
  \<open>dotenv_values\<close> has type \<open>Dict[str, Optional[str]]\<close>: a key of the file may be
  bound to a string or to \<open>None\<close>, and a key that is not in the file is not in the
  dictionary.  Reading the file is input; the dictionary it yields is the argument
  \<open>config\<close> of the two functions below.
\<close>

datatype pyval = PyNone | PyStr string

type_synonym config = "string \<rightharpoonup> pyval"

text \<open>
  The exceptions of the model.  \<open>assert\<close> raises \<open>AssertionError\<close> with the message
  of the statement, \<open>wait\<close> raises \<open>ValueError\<close>, and subscripting a dictionary with
  a missing key would raise \<open>KeyError\<close>.
\<close>

datatype error = AssertionError string | ValueError string | KeyError string

text \<open>\<open>d.get(k, dflt)\<close>: the value bound to \<open>k\<close>, or \<open>dflt\<close> when \<open>k\<close> is not a key.\<close>

definition dict_get :: "config \<Rightarrow> string \<Rightarrow> pyval \<Rightarrow> pyval" where
  "dict_get d k dflt = (case d k of None \<Rightarrow> dflt | Some v \<Rightarrow> v)"

text \<open>Truth value of an object: \<open>None\<close> and the empty string are false.\<close>

fun truthy :: "pyval \<Rightarrow> bool" where
  "truthy PyNone = False"
| "truthy (PyStr s) = (s \<noteq> [])"

text \<open>\<open>a or b\<close> is \<open>a\<close> when \<open>a\<close> is true, and \<open>b\<close> otherwise.\<close>

definition py_or :: "pyval \<Rightarrow> pyval \<Rightarrow> pyval" where
  "py_or a b = (if truthy a then a else b)"

text \<open>\<open>assert cond, msg\<close> (assertions enabled, the interpreter's default).\<close>

definition assert_py :: "bool \<Rightarrow> string \<Rightarrow> error + unit" where
  "assert_py cond msg = (if cond then Inr () else Inl (AssertionError msg))"

text \<open>Sequencing of statements: an exception ends the function.\<close>

definition bind_err :: "error + 'a \<Rightarrow> ('a \<Rightarrow> error + 'b) \<Rightarrow> error + 'b" where
  "bind_err m f = (case m of Inl e \<Rightarrow> Inl e | Inr x \<Rightarrow> f x)"

section \<open>Settings read from the environment file\<close>

text \<open>
  \<^verbatim>\<open>
  def openai_settings_from_dot_env() -> Tuple[str, Optional[str]]:
      config = dotenv_values(".env")
      api_key = config.get("OPENAI_API_KEY", None)
      org_id = config.get("OPENAI_ORG_ID", None)
      assert api_key is not None, "OpenAI API key not found in .env file"
      return api_key, org_id
  \<close>
\<close>

definition openai_settings_from_dot_env :: "config \<Rightarrow> error + (pyval \<times> pyval)" where
  "openai_settings_from_dot_env config =
     (let api_key = dict_get config ''OPENAI_API_KEY'' PyNone;
          org_id = dict_get config ''OPENAI_ORG_ID'' PyNone
      in bind_err (assert_py (api_key \<noteq> PyNone) ''OpenAI API key not found in .env file'')
           (\<lambda>_. Inr (api_key, org_id)))"

text \<open>
  \<^verbatim>\<open>
  def azure_openai_settings_from_dot_env(include_deployment=True) -> Tuple[str, str, str]:
      deployment, api_key, endpoint = None, None, None
      config = dotenv_values(".env")
      deployment = config.get("AZURE_OPENAI_DEPLOYMENT_NAME", None)
      api_key = config.get("AZURE_OPENAI_API_KEY", None)
      endpoint = config.get("AZURE_OPENAI_ENDPOINT", None)
      if include_deployment:
          assert (
              deployment is not None
          ), "Azure OpenAI deployment name not found in .env file"
      assert api_key is not None, "Azure OpenAI API key not found in .env file"
      assert endpoint is not None, "Azure OpenAI endpoint not found in .env file"
      return deployment or "", api_key, endpoint
  \<close>
\<close>

definition azure_openai_settings_from_dot_env ::
  "bool \<Rightarrow> config \<Rightarrow> error + (pyval \<times> pyval \<times> pyval)" where
  "azure_openai_settings_from_dot_env include_deployment config =
     (let deployment = dict_get config ''AZURE_OPENAI_DEPLOYMENT_NAME'' PyNone;
          api_key = dict_get config ''AZURE_OPENAI_API_KEY'' PyNone;
          endpoint = dict_get config ''AZURE_OPENAI_ENDPOINT'' PyNone
      in bind_err
           (if include_deployment
            then assert_py (deployment \<noteq> PyNone)
                   ''Azure OpenAI deployment name not found in .env file''
            else Inr ())
           (\<lambda>_. bind_err
              (assert_py (api_key \<noteq> PyNone) ''Azure OpenAI API key not found in .env file'')
              (\<lambda>_. bind_err
                 (assert_py (endpoint \<noteq> PyNone)
                    ''Azure OpenAI endpoint not found in .env file'')
                 (\<lambda>_. Inr (py_or deployment (PyStr ''''), api_key, endpoint)))))"

section \<open>Numbers of the wait skill\<close>

text \<open>
  A \<open>float\<close> is a finite number, an infinity or NaN.  A finite float is kept as
  the rational it denotes; the two zeros are not told apart, as Python's
  comparisons do not tell them apart either.  \<open>max(float(seconds_text), 0)\<close> mixes
  a float with the \<open>int\<close> literal \<open>0\<close>, so a number is an int or a float.
\<close>

datatype pyfloat = Finite rat | PosInf | NegInf | NaN

datatype pynum = IntVal int | FloatVal pyfloat

text \<open>Python compares an int with a float by their exact values.\<close>

fun as_float :: "pynum \<Rightarrow> pyfloat" where
  "as_float (IntVal i) = Finite (of_int i)"
| "as_float (FloatVal x) = x"

text \<open>\<open>x > y\<close> on floats: every comparison with NaN is false.\<close>

fun float_gt :: "pyfloat \<Rightarrow> pyfloat \<Rightarrow> bool" where
  "float_gt NaN y = False"
| "float_gt x NaN = False"
| "float_gt PosInf y = (y \<noteq> PosInf)"
| "float_gt NegInf y = False"
| "float_gt (Finite x) PosInf = False"
| "float_gt (Finite x) NegInf = True"
| "float_gt (Finite x) (Finite y) = (y < x)"

definition num_gt :: "pynum \<Rightarrow> pynum \<Rightarrow> bool" where
  "num_gt a b = float_gt (as_float a) (as_float b)"

text \<open>\<open>a >= b\<close>.\<close>

definition num_ge :: "pynum \<Rightarrow> pynum \<Rightarrow> bool" where
  "num_ge a b = (as_float a \<noteq> NaN \<and> as_float b \<noteq> NaN
                 \<and> (as_float a = as_float b \<or> float_gt (as_float a) (as_float b)))"

text \<open>
  \<open>max(a, b)\<close> keeps its first argument unless the second one is greater
  (the builtin replaces the running maximum only when \<open>item > maximum\<close>).
\<close>

definition max_py :: "pynum \<Rightarrow> pynum \<Rightarrow> pynum" where
  "max_py a b = (if num_gt b a then b else a)"

section \<open>The builtin float on strings\<close>

text \<open>
  \<open>float(s)\<close> on a string either returns a float or raises \<open>ValueError\<close>; \<open>None\<close>
  stands for the raise.  The function follows the grammar of the language
  reference on ASCII strings: surrounding whitespace is dropped, then comes an
  optional sign and \<open>inf\<close>, \<open>infinity\<close> or \<open>nan\<close> in any case, or a decimal number
  with an optional exponent, where single underscores may separate digits.  The
  value of a decimal number is its exact rational value: the rounding to the
  nearest binary64 number is not part of the model.
\<close>

definition is_space :: "char \<Rightarrow> bool" where
  "is_space c = (c \<in> set [CHR '' '', CHR 0x09, CHR 0x0A, CHR 0x0B, CHR 0x0C, CHR 0x0D])"

definition strip :: "string \<Rightarrow> string" where
  "strip s = rev (dropWhile is_space (rev (dropWhile is_space s)))"

definition digit_val :: "char \<Rightarrow> nat option" where
  "digit_val = map_of [(CHR ''0'', 0), (CHR ''1'', 1), (CHR ''2'', 2), (CHR ''3'', 3),
     (CHR ''4'', 4), (CHR ''5'', 5), (CHR ''6'', 6), (CHR ''7'', 7), (CHR ''8'', 8),
     (CHR ''9'', 9)]"

definition lower :: "char \<Rightarrow> char" where
  "lower c = (let n = of_char c :: nat in if 65 \<le> n \<and> n \<le> 90 then char_of (n + 32) else c)"

text \<open>
  \<open>digitpart ::= digit (["_"] digit)*\<close>: the digits read and the rest of the
  string; no digits when the string does not start with a digit.
\<close>

fun digits_tail :: "string \<Rightarrow> nat list \<times> string" where
  "digits_tail [] = ([], [])"
| "digits_tail [c] = (case digit_val c of Some v \<Rightarrow> ([v], []) | None \<Rightarrow> ([], [c]))"
| "digits_tail (c # d # cs) =
     (case digit_val c of
        Some v \<Rightarrow> (let (ds, r) = digits_tail (d # cs) in (v # ds, r))
      | None \<Rightarrow>
          (if c = CHR ''_'' then
             (case digit_val d of
                Some w \<Rightarrow> (let (ds, r) = digits_tail cs in (w # ds, r))
              | None \<Rightarrow> ([], c # d # cs))
           else ([], c # d # cs)))"

definition digitpart :: "string \<Rightarrow> nat list \<times> string" where
  "digitpart s =
     (case s of [] \<Rightarrow> ([], [])
      | c # cs \<Rightarrow> (case digit_val c of None \<Rightarrow> ([], s) | Some v \<Rightarrow> digits_tail s))"

definition decimal :: "nat list \<Rightarrow> nat" where
  "decimal ds = foldl (\<lambda>n d. 10 * n + d) 0 ds"

definition take_sign :: "string \<Rightarrow> bool \<times> string" where
  "take_sign s =
     (case s of [] \<Rightarrow> (False, [])
      | c # cs \<Rightarrow> if c = CHR ''-'' then (True, cs) else if c = CHR ''+'' then (False, cs)
                  else (False, s))"

definition scale10 :: "rat \<Rightarrow> int \<Rightarrow> rat" where
  "scale10 m e = (if 0 \<le> e then m * 10 ^ nat e else m / 10 ^ nat (- e))"

text \<open>\<open>exponent ::= ("e" | "E") [sign] digitpart\<close>, optional.\<close>

definition exponent :: "string \<Rightarrow> (int \<times> string) option" where
  "exponent s =
     (case s of [] \<Rightarrow> Some (0, [])
      | c # cs \<Rightarrow>
          if lower c = CHR ''e'' then
            (let (neg, r) = take_sign cs; (ds, r') = digitpart r
             in if ds = [] then None
                else Some (if neg then - int (decimal ds) else int (decimal ds), r'))
          else Some (0, s))"

text \<open>
  \<open>number ::= [digitpart] "." digitpart | digitpart ["."]\<close> and
  \<open>floatnumber ::= number [exponent]\<close>; the whole string has to be used up.
\<close>

definition floatnumber :: "string \<Rightarrow> rat option" where
  "floatnumber s =
     (let (ip, r1) = digitpart s;
          (fp, r2) = (case r1 of [] \<Rightarrow> ([], r1)
                      | c # cs \<Rightarrow> if c = CHR ''.'' then digitpart cs else ([], r1))
      in if ip = [] \<and> fp = [] then None
         else (case exponent r2 of
                 None \<Rightarrow> None
               | Some (e, r3) \<Rightarrow>
                   if r3 = []
                   then Some (scale10 (of_nat (decimal (ip @ fp))) (e - int (length fp)))
                   else None))"

definition float_py :: "string \<Rightarrow> pyfloat option" where
  "float_py s =
     (let (neg, body) = take_sign (strip s); word = map lower body
      in if word = ''inf'' \<or> word = ''infinity'' then Some (if neg then NegInf else PosInf)
         else if word = ''nan'' then Some NaN
         else map_option (\<lambda>q. Finite (if neg then - q else q)) (floatnumber body))"

section \<open>The wait skill\<close>

text \<open>
  \<^verbatim>\<open>
  async def wait(self, seconds_text: str):
      try:
          seconds = max(float(seconds_text), 0)
      except ValueError:
          raise ValueError("seconds text must be a number")
      await asyncio.sleep(seconds)
  \<close>
  The effect of the coroutine is the sequence of delays it hands to
  \<open>asyncio.sleep\<close>: the state is the list of delays requested so far, and
  \<open>asyncio_sleep\<close> appends to it.  The builtin \<open>float\<close> is the argument
  \<open>float_fn\<close>, so that the properties of \<open>wait\<close> hold for whatever the conversion
  returns; \<open>float_py\<close> above is the instance used on concrete inputs.
\<close>

definition asyncio_sleep :: "pynum \<Rightarrow> pynum list \<Rightarrow> pynum list" where
  "asyncio_sleep delay trace = trace @ [delay]"

definition wait ::
  "(string \<Rightarrow> pyfloat option) \<Rightarrow> string \<Rightarrow> pynum list \<Rightarrow> (error + unit) \<times> pynum list" where
  "wait float_fn seconds_text trace =
     (case float_fn seconds_text of
        None \<Rightarrow> (Inl (ValueError ''seconds text must be a number''), trace)
      | Some x \<Rightarrow>
          (let seconds = max_py (FloatVal x) (IntVal 0)
           in (Inr (), asyncio_sleep seconds trace)))"

section \<open>Lookups and the boolean operator\<close>

lemma dict_get_missing: "d k = None \<Longrightarrow> dict_get d k dflt = dflt"
  by (simp add: dict_get_def)

lemma dict_get_bound: "d k = Some v \<Longrightarrow> dict_get d k dflt = v"
  by (simp add: dict_get_def)

lemma py_or_empty_default: "py_or v (PyStr []) = (if v = PyNone then PyStr [] else v)"
  by (cases v) (auto simp: py_or_def)

lemmas settings_defs =
  openai_settings_from_dot_env_def azure_openai_settings_from_dot_env_def
  assert_py_def bind_err_def Let_def

section \<open>OpenAI settings\<close>

text \<open>
  Against C1 as stated: a source that sets \<open>OPENAI_API_KEY\<close> to the empty string
  is accepted, and the empty key is returned.  The assertion tests \<open>is not None\<close>
  only.
\<close>

theorem openai_empty_key_accepted:
  "dict_get [''OPENAI_API_KEY'' \<mapsto> PyStr ''''] ''OPENAI_API_KEY'' PyNone = PyStr ''''
   \<and> openai_settings_from_dot_env [''OPENAI_API_KEY'' \<mapsto> PyStr '''']
       = Inr (PyStr '''', PyNone)"
  by (simp add: settings_defs dict_get_def)

text \<open>
  C1, amended: \<open>openai_settings_from_dot_env\<close> fails, with the assertion error
  "OpenAI API key not found in .env file", exactly when the lookup of
  \<open>OPENAI_API_KEY\<close> yields \<open>None\<close>, which includes the empty source.  Every string
  value of the key, the empty string too, is accepted and returned, whatever the
  lookup of \<open>OPENAI_ORG_ID\<close> yields: a missing organization id is never an error.
\<close>

theorem openai_fails_iff_key_absent:
  "openai_settings_from_dot_env config =
     (case dict_get config ''OPENAI_API_KEY'' PyNone of
        PyNone \<Rightarrow> Inl (AssertionError ''OpenAI API key not found in .env file'')
      | PyStr k \<Rightarrow> Inr (PyStr k, dict_get config ''OPENAI_ORG_ID'' PyNone))
   \<and> openai_settings_from_dot_env Map.empty
       = Inl (AssertionError ''OpenAI API key not found in .env file'')"
  by (simp add: settings_defs dict_get_def split: pyval.splits option.splits)

text \<open>
  C2: when the source binds \<open>OPENAI_API_KEY\<close> to a non-empty string, the function
  succeeds and returns that string together with the value bound to
  \<open>OPENAI_ORG_ID\<close>, or \<open>None\<close> when the source has no such key.
\<close>

theorem openai_returns_key_and_org:
  assumes "config ''OPENAI_API_KEY'' = Some (PyStr k)" and "k \<noteq> []"
  shows "openai_settings_from_dot_env config =
           Inr (PyStr k, (case config ''OPENAI_ORG_ID'' of None \<Rightarrow> PyNone | Some v \<Rightarrow> v))"
  using assms by (simp add: settings_defs dict_get_def)

text \<open>The hypotheses of C2 at two sources, with and without an organization id.\<close>

theorem openai_returns_key_and_org_witness:
  "openai_settings_from_dot_env
     [''OPENAI_API_KEY'' \<mapsto> PyStr ''sk-1'', ''OPENAI_ORG_ID'' \<mapsto> PyStr ''org-7'']
     = Inr (PyStr ''sk-1'', PyStr ''org-7'')
   \<and> openai_settings_from_dot_env [''OPENAI_API_KEY'' \<mapsto> PyStr ''sk-1'']
     = Inr (PyStr ''sk-1'', PyNone)"
  using openai_returns_key_and_org
          [of "[''OPENAI_API_KEY'' \<mapsto> PyStr ''sk-1'', ''OPENAI_ORG_ID'' \<mapsto> PyStr ''org-7'']"
              "''sk-1''"]
        openai_returns_key_and_org [of "[''OPENAI_API_KEY'' \<mapsto> PyStr ''sk-1'']" "''sk-1''"]
  by simp

section \<open>Azure OpenAI settings\<close>

text \<open>
  Against C3 as stated: with the three keys set to empty strings and the
  deployment required, the function succeeds.
\<close>

theorem azure_empty_values_accepted:
  "azure_openai_settings_from_dot_env True
     [''AZURE_OPENAI_DEPLOYMENT_NAME'' \<mapsto> PyStr '''', ''AZURE_OPENAI_API_KEY'' \<mapsto> PyStr '''',
      ''AZURE_OPENAI_ENDPOINT'' \<mapsto> PyStr '''']
   = Inr (PyStr '''', PyStr '''', PyStr '''')"
  by (simp add: settings_defs dict_get_def py_or_def)

text \<open>
  C3, amended: with the deployment required, the function fails when the lookup
  of one of the three keys yields \<open>None\<close>, and in every other case, empty strings
  included, it succeeds and returns the three values of the source.
\<close>

theorem azure_required_fails_iff_absent:
  "(if dict_get config ''AZURE_OPENAI_DEPLOYMENT_NAME'' PyNone = PyNone
      \<or> dict_get config ''AZURE_OPENAI_API_KEY'' PyNone = PyNone
      \<or> dict_get config ''AZURE_OPENAI_ENDPOINT'' PyNone = PyNone
    then isl (azure_openai_settings_from_dot_env True config)
    else azure_openai_settings_from_dot_env True config =
           Inr (dict_get config ''AZURE_OPENAI_DEPLOYMENT_NAME'' PyNone,
                dict_get config ''AZURE_OPENAI_API_KEY'' PyNone,
                dict_get config ''AZURE_OPENAI_ENDPOINT'' PyNone))"
  by (simp add: settings_defs py_or_empty_default)

text \<open>
  C4: when the deployment is not required and its lookup yields \<open>None\<close>, while
  the API key and the endpoint are bound to strings, the function succeeds and
  the deployment name of the result is the empty string, not \<open>None\<close>.
\<close>

theorem azure_optional_deployment_defaults_to_empty:
  assumes "dict_get config ''AZURE_OPENAI_DEPLOYMENT_NAME'' PyNone = PyNone"
    and "config ''AZURE_OPENAI_API_KEY'' = Some (PyStr k)"
    and "config ''AZURE_OPENAI_ENDPOINT'' = Some (PyStr e)"
  shows "azure_openai_settings_from_dot_env False config = Inr (PyStr '''', PyStr k, PyStr e)"
  using assms by (simp add: settings_defs dict_get_bound py_or_empty_default)

text \<open>The hypotheses of C4 at a source without a deployment name.\<close>

theorem azure_optional_deployment_defaults_to_empty_witness:
  "azure_openai_settings_from_dot_env False
     [''AZURE_OPENAI_API_KEY'' \<mapsto> PyStr ''k1'', ''AZURE_OPENAI_ENDPOINT'' \<mapsto> PyStr ''https://e'']
   = Inr (PyStr '''', PyStr ''k1'', PyStr ''https://e'')"
  using azure_optional_deployment_defaults_to_empty
    [of "[''AZURE_OPENAI_API_KEY'' \<mapsto> PyStr ''k1'',
          ''AZURE_OPENAI_ENDPOINT'' \<mapsto> PyStr ''https://e'']"
        "''k1''" "''https://e''"]
  by (simp add: dict_get_def)

text \<open>
  C5: for both values of \<open>include_deployment\<close>, the function fails with an
  assertion error when the lookup of \<open>AZURE_OPENAI_API_KEY\<close> yields \<open>None\<close>, and
  likewise when the lookup of \<open>AZURE_OPENAI_ENDPOINT\<close> yields \<open>None\<close>.
\<close>

theorem azure_key_and_endpoint_always_required:
  assumes "dict_get config ''AZURE_OPENAI_API_KEY'' PyNone = PyNone
           \<or> dict_get config ''AZURE_OPENAI_ENDPOINT'' PyNone = PyNone"
  shows "\<exists>msg. azure_openai_settings_from_dot_env include_deployment config
                = Inl (AssertionError msg)"
  using assms by (auto simp: settings_defs)

text \<open>
  The hypothesis of C5 with the deployment not required: once without the API
  key and once without the endpoint.
\<close>

theorem azure_key_and_endpoint_always_required_witness:
  "(\<exists>msg. azure_openai_settings_from_dot_env False
            [''AZURE_OPENAI_DEPLOYMENT_NAME'' \<mapsto> PyStr ''d1'',
             ''AZURE_OPENAI_ENDPOINT'' \<mapsto> PyStr ''https://e'']
          = Inl (AssertionError msg))
   \<and> (\<exists>msg. azure_openai_settings_from_dot_env False
            [''AZURE_OPENAI_DEPLOYMENT_NAME'' \<mapsto> PyStr ''d1'',
             ''AZURE_OPENAI_API_KEY'' \<mapsto> PyStr ''k1'']
          = Inl (AssertionError msg))"
  using azure_key_and_endpoint_always_required
    [of "[''AZURE_OPENAI_DEPLOYMENT_NAME'' \<mapsto> PyStr ''d1'',
          ''AZURE_OPENAI_ENDPOINT'' \<mapsto> PyStr ''https://e'']" False]
        azure_key_and_endpoint_always_required
    [of "[''AZURE_OPENAI_DEPLOYMENT_NAME'' \<mapsto> PyStr ''d1'',
          ''AZURE_OPENAI_API_KEY'' \<mapsto> PyStr ''k1'']" False]
  by (simp add: dict_get_def)

text \<open>
  C6: with the deployment required, the three assertions run in the order
  deployment name, API key, endpoint, and the first one that fails gives the
  message of the error, whatever the later lookups yield; with all three keys
  missing the error is the one of the deployment name.
\<close>

theorem azure_fail_fast_order:
  "azure_openai_settings_from_dot_env True config =
     (case dict_get config ''AZURE_OPENAI_DEPLOYMENT_NAME'' PyNone of
        PyNone \<Rightarrow> Inl (AssertionError ''Azure OpenAI deployment name not found in .env file'')
      | PyStr d \<Rightarrow>
          (case dict_get config ''AZURE_OPENAI_API_KEY'' PyNone of
             PyNone \<Rightarrow> Inl (AssertionError ''Azure OpenAI API key not found in .env file'')
           | PyStr k \<Rightarrow>
               (case dict_get config ''AZURE_OPENAI_ENDPOINT'' PyNone of
                  PyNone \<Rightarrow>
                    Inl (AssertionError ''Azure OpenAI endpoint not found in .env file'')
                | PyStr e \<Rightarrow> Inr (PyStr d, PyStr k, PyStr e))))
   \<and> azure_openai_settings_from_dot_env True Map.empty
       = Inl (AssertionError ''Azure OpenAI deployment name not found in .env file'')"
  by (simp add: settings_defs py_or_empty_default dict_get_missing split: pyval.splits)

text \<open>
  C9: when the source binds \<open>AZURE_OPENAI_DEPLOYMENT_NAME\<close> to a non-empty
  string and the deployment is not required, every result carries exactly that
  string as its deployment name, and the function fails only for a missing API
  key or endpoint.
\<close>

theorem azure_optional_keeps_deployment:
  assumes "config ''AZURE_OPENAI_DEPLOYMENT_NAME'' = Some (PyStr d)" and "d \<noteq> []"
  shows "case azure_openai_settings_from_dot_env False config of
           Inl err \<Rightarrow> dict_get config ''AZURE_OPENAI_API_KEY'' PyNone = PyNone
                      \<or> dict_get config ''AZURE_OPENAI_ENDPOINT'' PyNone = PyNone
         | Inr (deployment, api_key, endpoint) \<Rightarrow>
             deployment = PyStr d
             \<and> api_key = dict_get config ''AZURE_OPENAI_API_KEY'' PyNone
             \<and> endpoint = dict_get config ''AZURE_OPENAI_ENDPOINT'' PyNone"
  using assms by (simp add: settings_defs dict_get_bound py_or_def)

text \<open>The hypotheses of C9 at a source with all three keys.\<close>

theorem azure_optional_keeps_deployment_witness:
  "azure_openai_settings_from_dot_env False
     [''AZURE_OPENAI_DEPLOYMENT_NAME'' \<mapsto> PyStr ''gpt-35'',
      ''AZURE_OPENAI_API_KEY'' \<mapsto> PyStr ''k1'',
      ''AZURE_OPENAI_ENDPOINT'' \<mapsto> PyStr ''https://e'']
   = Inr (PyStr ''gpt-35'', PyStr ''k1'', PyStr ''https://e'')"
  using azure_optional_keeps_deployment
    [of "[''AZURE_OPENAI_DEPLOYMENT_NAME'' \<mapsto> PyStr ''gpt-35'',
          ''AZURE_OPENAI_API_KEY'' \<mapsto> PyStr ''k1'',
          ''AZURE_OPENAI_ENDPOINT'' \<mapsto> PyStr ''https://e'']" "''gpt-35''"]
  by (auto simp: dict_get_def split: sum.splits)

section \<open>No other failure\<close>

text \<open>
  C10: looking up a key that the source does not have yields \<open>None\<close>, not an
  error, and for every source each of the two functions either returns a result
  or raises one of its own assertion errors: there is no \<open>KeyError\<close> and no other
  exception.
\<close>

theorem resolvers_raise_only_assertions:
  "dict_get (config(k := None)) k PyNone = PyNone
   \<and> ((\<exists>r. openai_settings_from_dot_env config = Inr r)
        \<or> openai_settings_from_dot_env config
            = Inl (AssertionError ''OpenAI API key not found in .env file''))
   \<and> ((\<exists>r. azure_openai_settings_from_dot_env include_deployment config = Inr r)
        \<or> azure_openai_settings_from_dot_env include_deployment config
            \<in> Inl ` AssertionError `
                {''Azure OpenAI deployment name not found in .env file'',
                 ''Azure OpenAI API key not found in .env file'',
                 ''Azure OpenAI endpoint not found in .env file''})"
  by (simp add: settings_defs dict_get_def)

section \<open>The wait skill\<close>

lemmas float_py_defs =
  float_py_def take_sign_def strip_def is_space_def lower_def floatnumber_def
  digitpart_def digit_val_def decimal_def exponent_def scale10_def

lemma wait_sleeps_once:
  "float_fn s = Some x \<Longrightarrow>
     wait float_fn s trace = (Inr (), trace @ [max_py (FloatVal x) (IntVal 0)])"
  by (simp add: wait_def asyncio_sleep_def)

lemma max_py_zero_ge: "x \<noteq> NaN \<Longrightarrow> num_ge (max_py (FloatVal x) (IntVal 0)) (IntVal 0)"
  by (cases x) (auto simp: max_py_def num_gt_def num_ge_def)

lemma max_py_zero_negative:
  "float_gt (Finite 0) x \<Longrightarrow> max_py (FloatVal x) (IntVal 0) = IntVal 0"
  by (simp add: max_py_def num_gt_def)

text \<open>
  C7: when the conversion of the text to a float raises, \<open>wait\<close> raises the value
  error with the message "seconds text must be a number", and the list of
  requested delays is unchanged: no sleep was started.
\<close>

theorem wait_rejects_unparsable:
  assumes "float_fn seconds_text = None"
  shows "wait float_fn seconds_text trace
           = (Inl (ValueError ''seconds text must be a number''), trace)"
  using assms by (simp add: wait_def)

text \<open>The hypothesis of C7 at the text \<open>abc\<close>.\<close>

theorem wait_rejects_unparsable_witness:
  "float_py ''abc'' = None
   \<and> wait float_py ''abc'' [] = (Inl (ValueError ''seconds text must be a number''), [])"
proof -
  have h: "float_py ''abc'' = None"
    by (simp add: float_py_defs)
  show ?thesis
    using h wait_rejects_unparsable [of float_py "''abc''" "[]"] by simp
qed

text \<open>
  C8 at the text \<open>nan\<close>: the conversion succeeds, \<open>max\<close> keeps NaN because
  \<open>0 > NaN\<close> is false, and the delay handed to \<open>asyncio.sleep\<close> is NaN, which is
  not \<open>>= 0\<close>.  A negative number, on the other hand, gives the delay \<open>0\<close>.
\<close>

theorem wait_nan_not_clamped:
  "float_py ''nan'' = Some NaN
   \<and> wait float_py ''nan'' [] = (Inr (), [FloatVal NaN])
   \<and> \<not> num_ge (FloatVal NaN) (IntVal 0)
   \<and> wait float_py ''-3'' [] = (Inr (), [IntVal 0])"
proof -
  have nan: "float_py ''nan'' = Some NaN"
    by (simp add: float_py_defs)
  have neg: "float_py ''-3'' = Some (Finite (- 3))"
    by (simp add: float_py_defs)
  have "wait float_py ''nan'' [] = (Inr (), [FloatVal NaN])"
    by (simp add: wait_def nan asyncio_sleep_def max_py_def num_gt_def)
  moreover have "\<not> num_ge (FloatVal NaN) (IntVal 0)"
    by (simp add: num_ge_def)
  moreover have "wait float_py ''-3'' [] = (Inr (), [IntVal 0])"
    by (simp add: wait_def neg asyncio_sleep_def max_py_def num_gt_def)
  ultimately show ?thesis
    using nan by simp
qed

end
